theory Spec2Isabelle
  imports Complex_Main "HOL-Library.AList"
begin

section \<open>Values, exceptions and the fixed vocabulary\<close>

text \<open>
  The plugin stores arbitrary Python values under its setting names: strings, booleans,
  numbers, \<^verbatim>\<open>None\<close> and (for \<^verbatim>\<open>files\<close>) lists. The conditions
  \<^verbatim>\<open>if value:\<close> of the source test Python truthiness, which \<open>truthy\<close> writes out.
\<close>

datatype pyval = PNone | PBool bool | PInt int | PStr string | PList "pyval list"

fun truthy :: "pyval \<Rightarrow> bool" where
  "truthy PNone = False"
| "truthy (PBool b) = b"
| "truthy (PInt i) = (i \<noteq> 0)"
| "truthy (PStr s) = (s \<noteq> [])"
| "truthy (PList xs) = (xs \<noteq> [])"

text \<open>Every \<^verbatim>\<open>raise\<close> of the source, and every exception of a called library, is a value.\<close>

datatype pyexn =
    ValueError string
  | KeyError string
  | TypeError
  | AttributeError
  | NameError
  | OSError
  | UnicodeError

type_synonym pydict = "(string \<times> pyval) list"

text \<open>
  \<^verbatim>\<open>PsqlSettings.__postgres_variables\<close>: setting name and the environment variable it is
  exported as; the last five map to the empty string.
\<close>

definition postgres_variables :: "(string \<times> string) list" where
  "postgres_variables =
    [(''host'', ''PGHOST''), (''hostaddr'', ''PGHOSTADDR''), (''port'', ''PGPORT''),
     (''database'', ''PGDATABASE''), (''user'', ''PGUSER''), (''password'', ''PGPASSWORD''),
     (''passfile'', ''PGPASSFILE''), (''service'', ''PGSERVICE''),
     (''servicefile'', ''PGSERVICEFILE''), (''kerberos_realm'', ''PGREALM''),
     (''options'', ''PGOPTIONS''), (''application_name'', ''PGAPPNAME''),
     (''sslmode'', ''PGSSLMODE''), (''requiressl'', ''PGREQUIRESSL''),
     (''sslcompression'', ''PGSSLCOMPRESSION''), (''sslcert'', ''PGSSLCERT''),
     (''sslkey'', ''PGSSLKEY''), (''sslrootcert'', ''PGSSLROOTCERT''),
     (''sslcrl'', ''PGSSLCRL''), (''requirepeer'', ''PGREQUIREPEER''),
     (''krbsrvname'', ''PGKRBSRVNAME''), (''gsslib'', ''PGGSSLIB''),
     (''connect_timeout'', ''PGCONNECT_TIMEOUT''),
     (''client_encoding'', ''PGCLIENTENCODING''), (''datestyle'', ''PGDATESTYLE''),
     (''timezone'', ''PGTZ''), (''geqo'', ''PGGEQO''), (''sysconfdir'', ''PGSYSCONFDIR''),
     (''localedir'', ''PGLOCALEDIR''), (''psql_path'', ''''), (''prompt_for_password'', ''''),
     (''warn_on_empty_password'', ''''), (''output_to_newfile'', ''''), (''files'', '''')]"

section \<open>PsqlSettings\<close>

text \<open>
  One instance holds two dictionaries: \<^verbatim>\<open>__defaults\<close> (the working layer that the
  mapping protocol reads and writes) and \<^verbatim>\<open>__userspecified\<close> (the session overrides).
  Dictionaries are association lists read with \<open>map_of\<close> and written with
  \<open>AList.update\<close> and \<open>AList.delete\<close>, so that the loops of the source over a
  dictionary are folds. The persisted backend is the editor's settings object, of which
  the source uses \<^verbatim>\<open>get\<close> (\<^verbatim>\<open>None\<close> for a missing key) and \<^verbatim>\<open>set\<close>.
  The lock \<^verbatim>\<open>output_lock\<close> carries no data and is left out.
\<close>

record settings =
  defaults :: pydict
  userspecified :: pydict

type_synonym backend = "string \<rightharpoonup> pyval"

definition backend_get :: "backend \<Rightarrow> string \<Rightarrow> pyval" where
  "backend_get b k = (case b k of None \<Rightarrow> PNone | Some v \<Rightarrow> v)"

definition backend_set :: "backend \<Rightarrow> string \<Rightarrow> pyval \<Rightarrow> backend" where
  "backend_set b k v = b(k \<mapsto> v)"

definition try_validate_name :: "string \<Rightarrow> bool" where
  "try_validate_name name = (name \<in> set (map fst postgres_variables))"

definition validate_name :: "string \<Rightarrow> pyexn + unit" where
  "validate_name name =
     (if \<not> try_validate_name name
      then Inl (ValueError (''Argument '' @ name @ '' not recognized.''))
      else Inr ())"

definition keytransform :: "string \<Rightarrow> string" where
  "keytransform name = name"

text \<open>
  \<^verbatim>\<open>__get\<close>: a key missing from the working layer is looked up in the backend under
  \<^verbatim>\<open>default_<name>\<close> and copied into the working layer when the value found is truthy;
  then the working layer is indexed, which raises \<^verbatim>\<open>KeyError\<close> for a key still missing.
  Each operation returns its result or exception together with the instance as it is left.
\<close>

definition get :: "backend \<Rightarrow> settings \<Rightarrow> string \<Rightarrow> (pyexn + pyval) \<times> settings" where
  "get b s name =
     (let s1 =
        (if map_of (defaults s) (keytransform name) = None
         then (let v = backend_get b (''default_'' @ name)
               in if truthy v
                  then s\<lparr>defaults := AList.update (keytransform name) v (defaults s)\<rparr>
                  else s)
         else s)
      in (case map_of (defaults s1) (keytransform name) of
            None \<Rightarrow> (Inl (KeyError (keytransform name)), s1)
          | Some v \<Rightarrow> (Inr v, s1)))"

definition getitem :: "backend \<Rightarrow> settings \<Rightarrow> string \<Rightarrow> (pyexn + pyval) \<times> settings" where
  "getitem b s name =
     (case validate_name name of
        Inl e \<Rightarrow> (Inl e, s)
      | Inr _ \<Rightarrow> get b s (keytransform name))"

definition setitem :: "settings \<Rightarrow> string \<Rightarrow> pyval \<Rightarrow> (pyexn + unit) \<times> settings" where
  "setitem s name v =
     (case validate_name name of
        Inl e \<Rightarrow> (Inl e, s)
      | Inr _ \<Rightarrow> (Inr (), s\<lparr>defaults := AList.update (keytransform name) v (defaults s)\<rparr>))"

definition delitem :: "settings \<Rightarrow> string \<Rightarrow> (pyexn + unit) \<times> settings" where
  "delitem s name =
     (case validate_name name of
        Inl e \<Rightarrow> (Inl e, s)
      | Inr _ \<Rightarrow>
          (if map_of (defaults s) (keytransform name) = None
           then (Inl (KeyError (keytransform name)), s)
           else (Inr (), s\<lparr>defaults := AList.delete (keytransform name) (defaults s)\<rparr>)))"

definition contains :: "backend \<Rightarrow> settings \<Rightarrow> string \<Rightarrow> (pyexn + bool) \<times> settings" where
  "contains b s name =
     (case validate_name name of
        Inl e \<Rightarrow> (Inl e, s)
      | Inr _ \<Rightarrow>
          (if map_of (defaults s) (keytransform name) \<noteq> None then (Inr True, s)
           else if truthy (backend_get b (''default_'' @ name)) then (Inr True, s)
           else (Inr False, s)))"

definition reload :: "settings \<Rightarrow> settings" where
  "reload s = s\<lparr>defaults := userspecified s\<rparr>"

definition clear :: "settings \<Rightarrow> settings" where
  "clear s = reload (s\<lparr>userspecified := []\<rparr>)"

definition has_user_specified :: "settings \<Rightarrow> bool" where
  "has_user_specified s = (length (userspecified s) > 0)"

definition set_user_specified :: "settings \<Rightarrow> string \<Rightarrow> pyval \<Rightarrow> (pyexn + unit) \<times> settings" where
  "set_user_specified s name v =
     (case validate_name name of
        Inl e \<Rightarrow> (Inl e, s)
      | Inr _ \<Rightarrow> (Inr (), s\<lparr>userspecified := AList.update name v (userspecified s)\<rparr>))"

definition unset_user_specified :: "settings \<Rightarrow> string \<Rightarrow> (pyexn + unit) \<times> settings" where
  "unset_user_specified s name =
     (case validate_name name of
        Inl e \<Rightarrow> (Inl e, s)
      | Inr _ \<Rightarrow>
          (if map_of (userspecified s) name \<noteq> None
           then (Inr (), s\<lparr>userspecified := AList.delete name (userspecified s)\<rparr>)
           else (Inr (), s)))"

text \<open>
  \<^verbatim>\<open>save\<close>: the loop over \<^verbatim>\<open>__userspecified\<close> writes each entry to the backend;
  only when the loop ran at least once is the backend flushed and the instance cleared.
  The flush to disk (\<^verbatim>\<open>save_settings\<close>) does not change what the backend returns.
  The change notification of the backend reloads the working layer from the override
  layer, which \<^verbatim>\<open>clear\<close> does again at the end once the override layer is empty.
\<close>

definition save_loop :: "pydict \<Rightarrow> string list \<Rightarrow> backend \<Rightarrow> backend" where
  "save_loop us names b =
     fold (\<lambda>name bk. case map_of us name of
                        None \<Rightarrow> bk
                      | Some v \<Rightarrow> backend_set bk (''default_'' @ name) v) names b"

definition save :: "backend \<Rightarrow> settings \<Rightarrow> backend \<times> settings" where
  "save b s =
     (let updates = (map fst (userspecified s) \<noteq> []);
          b' = save_loop (userspecified s) (map fst (userspecified s)) b
      in if updates then (b', clear s) else (b', s))"

text \<open>
  \<^verbatim>\<open>MutableMapping.update\<close>, which \<^verbatim>\<open>__init__\<close> calls on its keyword arguments:
  one \<^verbatim>\<open>__setitem__\<close> per entry, stopping at the first exception.
\<close>

fun update :: "settings \<Rightarrow> pydict \<Rightarrow> (pyexn + unit) \<times> settings" where
  "update s [] = (Inr (), s)"
| "update s ((k, v) # kvs) =
     (case setitem s k v of
        (Inl e, s') \<Rightarrow> (Inl e, s')
      | (Inr _, s') \<Rightarrow> update s' kvs)"

text \<open>
  \<^verbatim>\<open>__init__\<close> overwrites both dictionaries of the instance it is run on, reloads, and
  stores the keyword arguments (\<^verbatim>\<open>window\<close> popped) in the working layer.
\<close>

definition init :: "settings \<Rightarrow> pydict \<Rightarrow> (pyexn + unit) \<times> settings" where
  "init self kwargs =
     update (reload (self\<lparr>defaults := [], userspecified := []\<rparr>)) (AList.delete ''window'' kwargs)"

subsection \<open>The registry of instances\<close>

text \<open>
  Instances are objects with identity: the class dictionary \<^verbatim>\<open>__windows\<close> maps a window
  id to an instance, and a caller that holds the instance sees every later change to it.
  The model keeps a store from addresses to instances and a registry from window ids to
  addresses. \<^verbatim>\<open>__new__\<close> returns the registered address of a known window and
  allocates otherwise; \<^verbatim>\<open>object.__new__\<close> rejects extra arguments of a class that
  overrides \<^verbatim>\<open>__new__\<close>. Calling the class runs \<^verbatim>\<open>__new__\<close> and then
  \<^verbatim>\<open>__init__\<close> on whatever instance it returned. The callers of the source pass
  keyword arguments only. Every address that \<^verbatim>\<open>__new__\<close> returns is in the store;
  the branch for an address outside it is there to make the lookup total.
\<close>

record registry =
  heap :: "nat \<rightharpoonup> settings"
  windows :: "int \<rightharpoonup> nat"
  next_addr :: nat

definition object_new :: "registry \<Rightarrow> pydict \<Rightarrow> (pyexn + nat) \<times> registry" where
  "object_new r kwargs =
     (if kwargs \<noteq> [] then (Inl TypeError, r)
      else (Inr (next_addr r),
            r\<lparr>heap := (heap r)(next_addr r \<mapsto> \<lparr>defaults = [], userspecified = []\<rparr>),
              next_addr := Suc (next_addr r)\<rparr>))"

definition new :: "registry \<Rightarrow> int option \<Rightarrow> pydict \<Rightarrow> (pyexn + nat) \<times> registry" where
  "new r window kwargs =
     (case window of
        Some wid \<Rightarrow>
          (case windows r wid of
             Some a \<Rightarrow> (Inr a, r)
           | None \<Rightarrow>
               (case object_new r kwargs of
                  (Inl e, r') \<Rightarrow> (Inl e, r')
                | (Inr a, r') \<Rightarrow> (Inr a, r'\<lparr>windows := (windows r')(wid \<mapsto> a)\<rparr>)))
      | None \<Rightarrow> object_new r kwargs)"

definition PsqlSettings :: "registry \<Rightarrow> int option \<Rightarrow> pydict \<Rightarrow> (pyexn + nat) \<times> registry" where
  "PsqlSettings r window kwargs =
     (case new r window kwargs of
        (Inl e, r') \<Rightarrow> (Inl e, r')
      | (Inr a, r') \<Rightarrow>
          (case heap r' a of
             None \<Rightarrow> (Inl (KeyError ''instance''), r')
           | Some self \<Rightarrow>
               (case init self kwargs of
                  (Inl e, self') \<Rightarrow> (Inl e, r'\<lparr>heap := (heap r')(a \<mapsto> self')\<rparr>)
                | (Inr _, self') \<Rightarrow> (Inr a, r'\<lparr>heap := (heap r')(a \<mapsto> self')\<rparr>))))"

definition window_closed :: "registry \<Rightarrow> int \<Rightarrow> registry" where
  "window_closed r wid =
     (if windows r wid \<noteq> None then r\<lparr>windows := (windows r)(wid := None)\<rparr> else r)"

section \<open>PsqlCommand: the dispatcher\<close>

text \<open>
  Reading \<^verbatim>\<open>self.settings\<close> runs the getter of the property (lines 49 to 53) and
  yields the instance of the window. Operations on the instance are sequenced with
  \<open>bindS\<close>: an exception ends the sequence and keeps the instance as the failing
  operation left it.
\<close>

definition bindS ::
  "(pyexn + 'a) \<times> settings \<Rightarrow> ('a \<Rightarrow> settings \<Rightarrow> (pyexn + 'b) \<times> settings) \<Rightarrow>
   (pyexn + 'b) \<times> settings" where
  "bindS m f = (case m of (Inl e, s) \<Rightarrow> (Inl e, s) | (Inr a, s) \<Rightarrow> f a s)"

text \<open>
  Assigning to \<^verbatim>\<open>self.settings\<close> (line 221) needs a setter. The decorator
  \<^verbatim>\<open>@settings.setter\<close> of lines 55 to 57 is applied to a function named
  \<^verbatim>\<open>function\<close>, so the property that has the setter is bound to the name
  \<^verbatim>\<open>function\<close> and \<^verbatim>\<open>settings\<close> stays without one: the assignment raises
  \<^verbatim>\<open>AttributeError\<close> and stores nothing.
\<close>

definition assign_settings :: "pydict \<Rightarrow> settings \<Rightarrow> (pyexn + unit) \<times> settings" where
  "assign_settings kwargs s = (Inl AttributeError, s)"

text \<open>
  \<^verbatim>\<open>set_status\<close> is a function of the module (lines 34 and 35). Neither the command
  classes nor the thread classes define an attribute of that name, so looking up
  \<^verbatim>\<open>self.set_status\<close> raises \<^verbatim>\<open>AttributeError\<close> before anything is called: no
  status line is shown. \<open>command_set_status\<close> is the lookup on the command,
  \<open>thread_set_status\<close> the one on the supervisor thread.
\<close>

definition command_set_status :: "string \<Rightarrow> settings \<Rightarrow> (pyexn + unit) \<times> settings" where
  "command_set_status msg s = (Inl AttributeError, s)"

definition thread_set_status :: "string \<Rightarrow> pyexn + unit" where
  "thread_set_status msg = Inl AttributeError"

text \<open>
  \<^verbatim>\<open>name in self.settings and self.settings[name]\<close>, as a truth value: the membership
  test, then the read (which may backfill the working layer).
\<close>

definition in_and_truthy :: "backend \<Rightarrow> settings \<Rightarrow> string \<Rightarrow> (pyexn + bool) \<times> settings" where
  "in_and_truthy b s name =
     bindS (contains b s name) (\<lambda>c s1.
       if \<not> c then (Inr False, s1)
       else bindS (getitem b s1 name) (\<lambda>v s2. (Inr (truthy v), s2)))"

definition is_output_to_newfile :: "backend \<Rightarrow> settings \<Rightarrow> (pyexn + bool) \<times> settings" where
  "is_output_to_newfile b s = in_and_truthy b s ''output_to_newfile''"

text \<open>
  \<^verbatim>\<open>__is_password_required\<close>; \<open>pgpass\<close> is the value of
  \<^verbatim>\<open>isfile(expanduser('~/.pgpass'))\<close>.
\<close>

definition is_password_required ::
  "backend \<Rightarrow> bool \<Rightarrow> settings \<Rightarrow> (pyexn + bool) \<times> settings" where
  "is_password_required b pgpass s =
     bindS (in_and_truthy b s ''prompt_for_password'') (\<lambda>p s1.
       if \<not> p then (Inr False, s1)
       else bindS (contains b s1 ''passfile'') (\<lambda>c s2.
         if c then (Inr False, s2)
         else bindS (contains b s2 ''service'') (\<lambda>c s3.
           if c then (Inr False, s3)
           else (Inr (\<not> pgpass), s3))))"

subsection \<open>The document and its selections\<close>

text \<open>
  Of the editor's view the command uses the selected regions (\<^verbatim>\<open>view.sel()\<close>), the test
  \<^verbatim>\<open>Region.empty()\<close> (both ends equal), \<^verbatim>\<open>view.substr\<close> (the text between the
  smaller and the larger end) and \<^verbatim>\<open>view.size()\<close>.
\<close>

record view =
  content :: string
  sel :: "(nat \<times> nat) list"

definition region_empty :: "nat \<times> nat \<Rightarrow> bool" where
  "region_empty r = (fst r = snd r)"

definition substr :: "view \<Rightarrow> nat \<times> nat \<Rightarrow> string" where
  "substr vw r =
     take (max (fst r) (snd r) - min (fst r) (snd r)) (drop (min (fst r) (snd r)) (content vw))"

definition size_view :: "view \<Rightarrow> nat" where
  "size_view vw = length (content vw)"

subsection \<open>Work units\<close>

text \<open>
  A worker thread (\<^verbatim>\<open>__PostgresQueryExecute\<close>) keeps the query text or the file it was
  made for; the other attribute is \<^verbatim>\<open>None\<close>. The dictionary kept for each worker has
  the key \<^verbatim>\<open>file\<close> or the key \<^verbatim>\<open>thread_num\<close>, and \<^verbatim>\<open>start_time\<close> once started.
\<close>

record worker =
  wk_query :: pyval
  wk_file :: pyval

record thread_info =
  ti_thread :: worker
  ti_file :: "pyval option"
  ti_thread_num :: "int option"
  ti_start_time :: "real option"

text \<open>Iterating a Python value: a list yields its elements, a string its characters.\<close>

definition py_iter :: "pyval \<Rightarrow> pyexn + pyval list" where
  "py_iter v =
     (case v of
        PList xs \<Rightarrow> Inr xs
      | PStr cs \<Rightarrow> Inr (map (\<lambda>c. PStr [c]) cs)
      | _ \<Rightarrow> Inl TypeError)"

text \<open>
  The loop over \<^verbatim>\<open>self.settings['files']\<close>; \<open>isfile\<close> is the file system's answer
  for each entry (\<^verbatim>\<open>os.path.isfile\<close> raises on a value that is no path).
\<close>

fun files_loop ::
  "(pyval \<Rightarrow> pyexn + bool) \<Rightarrow> pyval list \<Rightarrow> thread_info list \<times> int \<Rightarrow>
   pyexn + thread_info list \<times> int" where
  "files_loop isfile [] acc = Inr acc"
| "files_loop isfile (fileobj # rest) (thread_infos, thread_num) =
     (case isfile fileobj of
        Inl e \<Rightarrow> Inl e
      | Inr True \<Rightarrow>
          files_loop isfile rest
            (thread_infos @
               [\<lparr>ti_thread = \<lparr>wk_query = PNone, wk_file = fileobj\<rparr>, ti_file = Some fileobj,
                 ti_thread_num = None, ti_start_time = None\<rparr>],
             thread_num + 1)
      | Inr False \<Rightarrow> files_loop isfile rest (thread_infos, thread_num))"

text \<open>The loop over \<^verbatim>\<open>self.view.sel()\<close>, with the flag \<^verbatim>\<open>noSelections\<close>.\<close>

fun sel_loop ::
  "view \<Rightarrow> (nat \<times> nat) list \<Rightarrow> thread_info list \<times> int \<times> bool \<Rightarrow>
   thread_info list \<times> int \<times> bool" where
  "sel_loop vw [] acc = acc"
| "sel_loop vw (r # rest) (thread_infos, thread_num, noSelections) =
     (if \<not> region_empty r
      then sel_loop vw rest
             (thread_infos @
                [\<lparr>ti_thread = \<lparr>wk_query = PStr (substr vw r), wk_file = PNone\<rparr>, ti_file = None,
                  ti_thread_num = Some (thread_num + 1), ti_start_time = None\<rparr>],
              thread_num + 1, False)
      else sel_loop vw rest (thread_infos, thread_num, noSelections))"

text \<open>
  Lines 259 to 285 of \<^verbatim>\<open>__run_with_password\<close>: the list of work units and their
  count. The file list is consulted first; selections are read only without it.
\<close>

definition make_thread_infos ::
  "backend \<Rightarrow> (pyval \<Rightarrow> pyexn + bool) \<Rightarrow> view \<Rightarrow> settings \<Rightarrow>
   (pyexn + thread_info list \<times> int) \<times> settings" where
  "make_thread_infos b isfile vw s =
     bindS (contains b s ''files'') (\<lambda>c s1.
       if c then
         bindS (getitem b s1 ''files'') (\<lambda>fs s2.
           (case py_iter fs of
              Inl e \<Rightarrow> (Inl e, s2)
            | Inr xs \<Rightarrow> (files_loop isfile xs ([], 0), s2)))
       else
         (case sel_loop vw (sel vw) ([], 0, True) of
            (thread_infos, thread_num, noSelections) \<Rightarrow>
              if noSelections
              then (Inr (thread_infos @
                      [\<lparr>ti_thread = \<lparr>wk_query = PStr (substr vw (0, size_view vw)), wk_file = PNone\<rparr>,
                        ti_file = None, ti_thread_num = Some (thread_num + 1),
                        ti_start_time = None\<rparr>],
                     thread_num + 1), s1)
              else (Inr (thread_infos, thread_num), s1)))"

text \<open>Each unit gets its start time from the clock as it is started.\<close>

fun start_all :: "(nat \<Rightarrow> real) \<Rightarrow> nat \<Rightarrow> thread_info list \<Rightarrow> thread_info list" where
  "start_all time i [] = []"
| "start_all time i (ti # rest) =
     ti\<lparr>ti_start_time := Some (time i)\<rparr> # start_all time (Suc i) rest"
text \<open>
  What one run of the command does, as seen from outside: it asks for a password and
  stops, it is cancelled at the confirmation dialog, or it starts the workers and hands
  them to the supervisor (the flag tells whether the shared output panel was created).
\<close>

datatype outcome =
    Prompted
  | Cancelled
  | Executing bool "thread_info list" int

text \<open>
  \<^verbatim>\<open>__run_with_password\<close>; \<open>ok\<close> is the answer of \<^verbatim>\<open>ok_cancel_dialog\<close> and
  \<open>time\<close> the clock read for the i-th unit started. \<open>password_step\<close> is the
  conditional of lines 245 to 250 and tells whether the function goes on. Both ways on
  pass a lookup of \<^verbatim>\<open>self.set_status\<close>: line 247 before the early return, line 258
  before the first work unit is made.
\<close>

definition password_step ::
  "backend \<Rightarrow> bool \<Rightarrow> bool \<Rightarrow> pyval \<Rightarrow> settings \<Rightarrow> (pyexn + bool) \<times> settings" where
  "password_step b pgpass ok password s =
     bindS (if \<not> truthy password then is_password_required b pgpass s else (Inr False, s))
       (\<lambda>required s1.
          if required then
            bindS (in_and_truthy b s1 ''warn_on_empty_password'') (\<lambda>w s2.
              if w \<and> \<not> ok then (Inr False, s2) else (Inr True, s2))
          else
            bindS (contains b s1 ''password'') (\<lambda>c s2.
              if \<not> c then bindS (setitem s2 ''password'' password) (\<lambda>_ s3. (Inr True, s3))
              else (Inr True, s2)))"

definition run_with_password ::
  "backend \<Rightarrow> bool \<Rightarrow> bool \<Rightarrow> (pyval \<Rightarrow> pyexn + bool) \<Rightarrow> (nat \<Rightarrow> real) \<Rightarrow> view \<Rightarrow>
   pyval \<Rightarrow> settings \<Rightarrow> (pyexn + outcome) \<times> settings" where
  "run_with_password b pgpass ok isfile time vw password s =
     bindS (password_step b pgpass ok password s) (\<lambda>proceed s1.
       if \<not> proceed
       then bindS (command_set_status ''PostgreSQL query cancelled.'' s1) (\<lambda>_ s2.
              (Inr Cancelled, s2))
       else
         bindS (is_output_to_newfile b s1) (\<lambda>newfile s2.
           bindS (command_set_status ''PostgreSQL query executing...'' s2) (\<lambda>_ s3.
             bindS (make_thread_infos b isfile vw s3) (\<lambda>(thread_infos, thread_num) s4.
               (Inr (Executing (\<not> newfile) (start_all time 0 thread_infos) thread_num),
                s4)))))"

text \<open>
  Lines 226 to 233 of \<^verbatim>\<open>run\<close>: the password found in the settings, or the prompt
  (announced through \<^verbatim>\<open>self.set_status\<close> in line 230, before the input panel is
  shown), or \<^verbatim>\<open>__run_with_password\<close> without a password.
\<close>

definition password_gate ::
  "backend \<Rightarrow> bool \<Rightarrow> bool \<Rightarrow> (pyval \<Rightarrow> pyexn + bool) \<Rightarrow> (nat \<Rightarrow> real) \<Rightarrow> view \<Rightarrow>
   settings \<Rightarrow> (pyexn + outcome) \<times> settings" where
  "password_gate b pgpass ok isfile time vw s =
     bindS (contains b s ''password'') (\<lambda>c s1.
       if c then
         bindS (getitem b s1 ''password'') (\<lambda>password s2.
           run_with_password b pgpass ok isfile time vw password s2)
       else
         bindS (is_password_required b pgpass s1) (\<lambda>required s2.
           if required
           then bindS (command_set_status ''Enter password for PostgreSQL database.'' s2)
                  (\<lambda>_ s3. (Inr Prompted, s3))
           else run_with_password b pgpass ok isfile time vw PNone s2))"

text \<open>
  \<^verbatim>\<open>run\<close>, called with the keyword arguments of the invocation. Lines 219 and 220
  keep the edit object and put the window among the keyword arguments; then comes the
  assignment of line 221, and after it lines 222 to 233.
\<close>

definition run ::
  "backend \<Rightarrow> bool \<Rightarrow> bool \<Rightarrow> (pyval \<Rightarrow> pyexn + bool) \<Rightarrow> (nat \<Rightarrow> real) \<Rightarrow> view \<Rightarrow>
   pydict \<Rightarrow> settings \<Rightarrow> (pyexn + outcome) \<times> settings" where
  "run b pgpass ok isfile time vw kwargs s =
     bindS (assign_settings kwargs s) (\<lambda>_ s0.
       password_gate b pgpass ok isfile time vw s0)"

section \<open>The completion supervisor\<close>

text \<open>
  \<^verbatim>\<open>os.path.split\<close> cuts a path after its last slash; the supervisor uses the second
  part only.
\<close>

definition split_tail :: "string \<Rightarrow> string" where
  "split_tail p = rev (takeWhile (\<lambda>c. c \<noteq> CHR ''/'') (rev p))"

text \<open>
  The label of a finished unit (lines 307 to 311). Concatenating the string
  \<^verbatim>\<open>'query '\<close> and the integer ordinal raises \<^verbatim>\<open>TypeError\<close>.
\<close>

definition query_id :: "thread_info \<Rightarrow> int \<Rightarrow> pyexn + string" where
  "query_id ti thread_total =
     (case ti_file ti of
        Some f \<Rightarrow>
          (case f of
             PStr p \<Rightarrow> Inr (''file '' @ split_tail p)
           | _ \<Rightarrow> Inl AttributeError)
      | None \<Rightarrow>
          (case ti_thread_num ti of
             None \<Rightarrow> Inl (KeyError ''thread_num'')
           | Some n \<Rightarrow>
               if n \<noteq> 1 \<and> thread_total \<noteq> 1 then Inl TypeError else Inr ''query ''))"

definition bindE :: "pyexn + 'a \<Rightarrow> ('a \<Rightarrow> pyexn + 'b) \<Rightarrow> pyexn + 'b" where
  "bindE m f = (case m of Inl e \<Rightarrow> Inl e | Inr a \<Rightarrow> f a)"

text \<open>
  Lines 306 to 312 for one finished unit: the elapsed time, the label, and the call of
  \<^verbatim>\<open>self.set_status\<close> with the status line. \<open>now\<close> is the clock read for the unit
  and \<open>str\<close> is Python's rendering of a float, which the model does not fix; times are
  real numbers, the rounding of floating-point arithmetic is not modelled. The result is
  the line that was shown, or the exception raised.
\<close>

definition completion_status ::
  "(real \<Rightarrow> string) \<Rightarrow> real \<Rightarrow> int \<Rightarrow> thread_info \<Rightarrow> pyexn + string" where
  "completion_status str now thread_total ti =
     (case ti_start_time ti of
        None \<Rightarrow> Inl (KeyError ''start_time'')
      | Some start \<Rightarrow>
          (let completion_time = (now - start) * 1000
           in bindE (query_id ti thread_total) (\<lambda>qid.
                bindE (thread_set_status
                         (''PostgreSQL '' @ qid @ '' completed in '' @ str completion_time @
                          '' ms.''))
                  (\<lambda>_. Inr (''PostgreSQL '' @ qid @ '' completed in '' @
                            str completion_time @ '' ms.'')))))"

text \<open>
  One pass of \<^verbatim>\<open>__PostgresQueryHandleExecution.run\<close> over the units, the i-th of
  which is found alive or not (\<open>is_alive i\<close>) at the clock reading \<open>time i\<close>. The
  pass returns the status lines shown so far and either the exception that ended it or
  the units still running.
\<close>

fun handle_loop ::
  "(real \<Rightarrow> string) \<Rightarrow> (nat \<Rightarrow> bool) \<Rightarrow> (nat \<Rightarrow> real) \<Rightarrow> int \<Rightarrow> nat \<Rightarrow> thread_info list \<Rightarrow>
   string list \<times> (pyexn + thread_info list)" where
  "handle_loop str is_alive time thread_total i [] = ([], Inr [])"
| "handle_loop str is_alive time thread_total i (ti # rest) =
     (if is_alive i
      then (case handle_loop str is_alive time thread_total (Suc i) rest of
              (msgs, Inl e) \<Rightarrow> (msgs, Inl e)
            | (msgs, Inr new_thread_infos) \<Rightarrow> (msgs, Inr (ti # new_thread_infos)))
      else (case completion_status str (time i) thread_total ti of
              Inl e \<Rightarrow> ([], Inl e)
            | Inr msg \<Rightarrow>
                (case handle_loop str is_alive time thread_total (Suc i) rest of
                   (msgs, r) \<Rightarrow> (msg # msgs, r))))"

text \<open>
  The whole of \<^verbatim>\<open>run\<close>: after a pass that was not ended by an exception, the
  supervisor starts itself again on the units still running (line 315), or is done.
\<close>

datatype supervisor = Polling "thread_info list" int | Done

definition handle_execution ::
  "(real \<Rightarrow> string) \<Rightarrow> (nat \<Rightarrow> bool) \<Rightarrow> (nat \<Rightarrow> real) \<Rightarrow> thread_info list \<Rightarrow> int \<Rightarrow>
   string list \<times> (pyexn + supervisor)" where
  "handle_execution str is_alive time thread_infos thread_total =
     (case handle_loop str is_alive time thread_total 0 thread_infos of
        (msgs, Inl e) \<Rightarrow> (msgs, Inl e)
      | (msgs, Inr new_thread_infos) \<Rightarrow>
          if length new_thread_infos > 0
          then (msgs, Inr (Polling new_thread_infos thread_total))
          else (msgs, Inr Done))"

section \<open>The process worker\<close>

text \<open>
  The worker reads the settings of its parent command. First \<^verbatim>\<open>__get_parameter\<close>.
\<close>

definition get_parameter ::
  "backend \<Rightarrow> string \<Rightarrow> pyval \<Rightarrow> settings \<Rightarrow> (pyexn + pyval) \<times> settings" where
  "get_parameter b name dflt s =
     bindS (contains b s name) (\<lambda>c s1.
       bindS (if \<not> c \<and> truthy dflt then setitem s1 name dflt else (Inr (), s1)) (\<lambda>_ s2.
         if truthy dflt then getitem b s2 name
         else bindS (contains b s2 name) (\<lambda>c' s3.
                if c' then getitem b s3 name else (Inr (PBool False), s3))))"

type_synonym environment = "string \<rightharpoonup> pyval"

text \<open>
  \<^verbatim>\<open>__try_add_parameter_name_to_environment\<close>: the environment dictionary is changed
  in place, so it is returned beside the flag.
\<close>

definition try_add_parameter_name_to_environment ::
  "backend \<Rightarrow> environment \<Rightarrow> string \<Rightarrow> string \<Rightarrow> pyval \<Rightarrow> settings \<Rightarrow>
   (pyexn + bool \<times> environment) \<times> settings" where
  "try_add_parameter_name_to_environment b env name argname dflt s =
     bindS (get_parameter b name dflt s) (\<lambda>v s1.
       if truthy v then (Inr (True, env(argname \<mapsto> v)), s1)
       else (Inr (False, env), s1))"

text \<open>
  \<^verbatim>\<open>postgres_variables\<close> (lines 99 to 102) is a property whose getter is a
  \<^verbatim>\<open>staticmethod\<close> object. Reading it from an instance calls that object with the
  instance. Where a \<^verbatim>\<open>staticmethod\<close> object cannot be called (before Python 3.10, which
  includes every version that still has \<^verbatim>\<open>collections.MutableMapping\<close>) the read raises
  \<^verbatim>\<open>TypeError\<close>; where it can, the body runs and its name \<^verbatim>\<open>__postgres_variables\<close>,
  mangled to a global that does not exist, raises \<^verbatim>\<open>NameError\<close>. Either way the read
  raises and yields no table; \<open>callable\<close> tells which interpreter runs the code.
\<close>

definition postgres_variables_property :: "bool \<Rightarrow> pyexn + (string \<times> string) list" where
  "postgres_variables_property callable = (if callable then Inl NameError else Inl TypeError)"

text \<open>
  The body of the loop of lines 363 to 365, for the names that the iteration yields: the
  third argument of the call reads the property again.
\<close>

fun env_loop ::
  "backend \<Rightarrow> bool \<Rightarrow> string list \<Rightarrow> environment \<Rightarrow> settings \<Rightarrow>
   (pyexn + environment) \<times> settings" where
  "env_loop b callable [] env s = (Inr env, s)"
| "env_loop b callable (name # names) env s =
     bindS (in_and_truthy b s name) (\<lambda>t s1.
       if t then
         (case postgres_variables_property callable of
            Inl e \<Rightarrow> (Inl e, s1)
          | Inr table \<Rightarrow>
              (case map_of table name of
                 None \<Rightarrow> (Inl (KeyError name), s1)
               | Some argname \<Rightarrow>
                   bindS (try_add_parameter_name_to_environment b env name argname
                            (PBool False) s1)
                     (\<lambda>(_, env') s2. env_loop b callable names env' s2)))
       else env_loop b callable names env s1)"

text \<open>
  Lines 360 to 369: the command line and the environment of the child. The loop of line
  363 iterates over what the property yields, and line 367 reads it once more.
\<close>

definition make_environment ::
  "backend \<Rightarrow> bool \<Rightarrow> environment \<Rightarrow> string \<Rightarrow> settings \<Rightarrow>
   (pyexn + pyval list \<times> environment) \<times> settings" where
  "make_environment b callable environ encoding s =
     bindS (get_parameter b ''psql_path'' (PStr ''/usr/bin/psql'') s) (\<lambda>psql_path s1.
       bindS (case postgres_variables_property callable of
                Inl e \<Rightarrow> (Inl e, s1)
              | Inr table \<Rightarrow> env_loop b callable (map fst table) environ s1) (\<lambda>env s2.
         (case postgres_variables_property callable of
            Inl e \<Rightarrow> (Inl e, s2)
          | Inr table \<Rightarrow>
              (case map_of table ''client_encoding'' of
                 None \<Rightarrow> (Inl (KeyError ''client_encoding''), s2)
               | Some client_encoding_name \<Rightarrow>
                   (Inr ([psql_path, PStr ''--no-password''],
                         if env client_encoding_name = None
                         then env(client_encoding_name \<mapsto> PStr encoding)
                         else env), s2)))))"

text \<open>
  What the worker needs from the operating system: opening a file, starting the child,
  talking to it, converting between text and bytes, and rendering the traceback of the
  exception being handled. Each call may raise.
\<close>

record os =
  environ :: environment
  open_file :: "pyval \<Rightarrow> pyexn + string"
  popen :: "pyval list \<Rightarrow> environment \<Rightarrow> pyexn + nat"
  communicate :: "nat \<Rightarrow> string \<Rightarrow> pyexn + string"
  bytes :: "pyval \<Rightarrow> string \<Rightarrow> pyexn + string"
  decode :: "string \<Rightarrow> string \<Rightarrow> pyexn + string"
  poll :: "nat \<Rightarrow> pyval"
  format_exc :: "pyexn \<Rightarrow> string"

text \<open>Lines 372 to 381: the child is fed the file or the encoded query.\<close>

definition communicate_with_child ::
  "os \<Rightarrow> worker \<Rightarrow> string \<Rightarrow> pyval list \<Rightarrow> environment \<Rightarrow> pyexn + pyval \<times> string" where
  "communicate_with_child w self encoding cmd env =
     bindE (if truthy (wk_file self)
            then bindE (open_file w (wk_file self)) (\<lambda>inputfile.
                   bindE (popen w cmd env) (\<lambda>psqlprocess.
                     bindE (communicate w psqlprocess inputfile) (\<lambda>stdout.
                       Inr (psqlprocess, stdout))))
            else bindE (popen w cmd env) (\<lambda>psqlprocess.
                   bindE (bytes w (wk_query self) encoding) (\<lambda>input.
                     bindE (communicate w psqlprocess input) (\<lambda>stdout.
                       Inr (psqlprocess, stdout)))))
       (\<lambda>(psqlprocess, stdout).
          bindE (decode w stdout encoding) (\<lambda>output_text.
            Inr (poll w psqlprocess, output_text)))"

text \<open>The body of the \<^verbatim>\<open>try\<close> statement of \<^verbatim>\<open>__PostgresQueryExecute.run\<close>.\<close>

definition run_try ::
  "os \<Rightarrow> backend \<Rightarrow> bool \<Rightarrow> worker \<Rightarrow> string \<Rightarrow> settings \<Rightarrow>
   (pyexn + pyval \<times> string) \<times> settings" where
  "run_try w b callable self encoding s =
     bindS (make_environment b callable (environ w) encoding s) (\<lambda>(cmd, env) s1.
       (communicate_with_child w self encoding cmd env, s1))"

text \<open>
  The handler of lines 383 to 386 catches \<^verbatim>\<open>BaseException\<close>, that is every exception
  of the body: the output becomes the traceback and the code 1.
\<close>

definition except_BaseException ::
  "os \<Rightarrow> (pyexn + pyval \<times> string) \<times> settings \<Rightarrow> (pyexn + pyval \<times> string) \<times> settings" where
  "except_BaseException w r =
     (case r of
        (Inr (retcode, output_text), s') \<Rightarrow> (Inr (retcode, output_text), s')
      | (Inl e, s') \<Rightarrow> (Inr (PInt 1, format_exc w e), s'))"

text \<open>
  \<^verbatim>\<open>__PostgresQueryExecute.run\<close>: the \<^verbatim>\<open>try\<close> statement, after which the pair of
  code and text is scheduled for \<^verbatim>\<open>__output\<close> on the editor's thread (line 389). The
  result is the scheduled pair, or the exception that leaves \<^verbatim>\<open>run\<close>.
\<close>

definition run_worker ::
  "os \<Rightarrow> backend \<Rightarrow> bool \<Rightarrow> worker \<Rightarrow> string \<Rightarrow> settings \<Rightarrow>
   (pyexn + pyval \<times> string) \<times> settings" where
  "run_worker w b callable self encoding s =
     except_BaseException w (run_try w b callable self encoding s)"

section \<open>What a read yields\<close>

text \<open>
  The proofs follow the working layer through sequences of reads. \<open>resolved b s name\<close>
  is the value that the working layer or, failing that, a truthy persisted default
  supplies for a name; the lemmas below show that \<^verbatim>\<open>__contains__\<close> and
  \<^verbatim>\<open>__getitem__\<close> compute exactly this and that a read does not change it.
\<close>

definition resolved :: "backend \<Rightarrow> settings \<Rightarrow> string \<Rightarrow> pyval option" where
  "resolved b s name =
     (case map_of (defaults s) name of
        Some v \<Rightarrow> Some v
      | None \<Rightarrow>
          (if truthy (backend_get b (''default_'' @ name))
           then Some (backend_get b (''default_'' @ name)) else None))"

section \<open>Reading and writing one name\<close>

lemma valid_name:
  "name \<in> set (map fst postgres_variables) \<Longrightarrow> validate_name name = Inr ()"
  by (simp add: validate_name_def try_validate_name_def)

lemma get_cases:
  "get b s name =
     (case map_of (defaults s) name of
        Some v \<Rightarrow> (Inr v, s)
      | None \<Rightarrow>
          (if truthy (backend_get b (''default_'' @ name))
           then (Inr (backend_get b (''default_'' @ name)),
                 s\<lparr>defaults := AList.update name (backend_get b (''default_'' @ name)) (defaults s)\<rparr>)
           else (Inl (KeyError name), s)))"
  by (simp add: get_def Let_def keytransform_def AList.update_conv' split: option.splits)

lemma getitem_valid:
  "name \<in> set (map fst postgres_variables) \<Longrightarrow> getitem b s name = get b s name"
  by (simp add: getitem_def valid_name keytransform_def)

lemma contains_resolved:
  "name \<in> set (map fst postgres_variables) \<Longrightarrow>
   contains b s name = (Inr (resolved b s name \<noteq> None), s)"
  by (simp add: contains_def valid_name resolved_def keytransform_def split: option.splits)

lemma getitem_resolved:
  "name \<in> set (map fst postgres_variables) \<Longrightarrow>
   fst (getitem b s name) =
     (case resolved b s name of None \<Rightarrow> Inl (KeyError name) | Some v \<Rightarrow> Inr v)"
  by (simp add: getitem_valid get_cases resolved_def split: option.splits)

lemma getitem_keeps_resolved:
  "resolved b (snd (getitem b s name)) = resolved b s"
  by (cases "validate_name name")
     (auto simp add: getitem_def get_cases resolved_def keytransform_def AList.update_conv'
        fun_eq_iff split: option.splits)

lemma getitem_keeps_userspecified:
  "userspecified (snd (getitem b s name)) = userspecified s"
  by (cases "validate_name name")
     (auto simp add: getitem_def get_cases keytransform_def split: option.splits)

lemma setitem_valid:
  "name \<in> set (map fst postgres_variables) \<Longrightarrow>
   setitem s name v = (Inr (), s\<lparr>defaults := AList.update name v (defaults s)\<rparr>)"
  by (simp add: setitem_def valid_name keytransform_def)

lemma resolved_update:
  "resolved b (s\<lparr>defaults := AList.update name v (defaults s)\<rparr>) = (resolved b s)(name \<mapsto> v)"
  by (auto simp add: resolved_def AList.update_conv' fun_eq_iff)

lemma in_and_truthy_resolved:
  "name \<in> set (map fst postgres_variables) \<Longrightarrow>
   fst (in_and_truthy b s name) =
     Inr (case resolved b s name of None \<Rightarrow> False | Some v \<Rightarrow> truthy v) \<and>
   resolved b (snd (in_and_truthy b s name)) = resolved b s"
  using getitem_resolved [of name b s] getitem_keeps_resolved [of b s name]
  by (cases "getitem b s name")
     (auto simp add: in_and_truthy_def bindS_def contains_resolved split: option.splits)

text \<open>
  C4. For every name of the fixed vocabulary, \<^verbatim>\<open>set\<close> followed by \<^verbatim>\<open>get\<close> returns
  exactly the value that was set; for every name outside the vocabulary, each of
  \<^verbatim>\<open>get\<close>, \<^verbatim>\<open>set\<close>, \<^verbatim>\<open>delete\<close> and \<^verbatim>\<open>contains\<close> raises the validation error
  and leaves the instance as it was.
\<close>

theorem set_get_roundtrip_and_validation:
  "(name \<in> set (map fst postgres_variables) \<longrightarrow>
      fst (setitem s name v) = Inr () \<and>
      fst (getitem b (snd (setitem s name v)) name) = Inr v \<and>
      snd (getitem b (snd (setitem s name v)) name) = snd (setitem s name v)) \<and>
   (name \<notin> set (map fst postgres_variables) \<longrightarrow>
      getitem b s name = (Inl (ValueError (''Argument '' @ name @ '' not recognized.'')), s) \<and>
      setitem s name v = (Inl (ValueError (''Argument '' @ name @ '' not recognized.'')), s) \<and>
      delitem s name = (Inl (ValueError (''Argument '' @ name @ '' not recognized.'')), s) \<and>
      contains b s name = (Inl (ValueError (''Argument '' @ name @ '' not recognized.'')), s))"
  by (simp add: getitem_def setitem_def delitem_def contains_def get_def validate_name_def
      try_validate_name_def keytransform_def AList.update_conv')

theorem set_get_roundtrip_and_validation_witness:
  "''host'' \<in> set (map fst postgres_variables) \<and>
   fst (getitem Map.empty
         (snd (setitem \<lparr>defaults = [], userspecified = []\<rparr> ''host'' (PStr ''db1''))) ''host'')
     = Inr (PStr ''db1'') \<and>
   ''hostname'' \<notin> set (map fst postgres_variables) \<and>
   contains Map.empty \<lparr>defaults = [], userspecified = []\<rparr> ''hostname''
     = (Inl (ValueError (''Argument '' @ ''hostname'' @ '' not recognized.'')),
        \<lparr>defaults = [], userspecified = []\<rparr>)"
proof -
  have v: "''host'' \<in> set (map fst postgres_variables)"
    by (simp add: postgres_variables_def)
  have n: "''hostname'' \<notin> set (map fst postgres_variables)"
    by (simp add: postgres_variables_def)
  from v n show ?thesis
    using set_get_roundtrip_and_validation
            [of "''host''" "\<lparr>defaults = [], userspecified = []\<rparr>" "PStr ''db1''" Map.empty]
          set_get_roundtrip_and_validation
            [of "''hostname''" "\<lparr>defaults = [], userspecified = []\<rparr>" PNone Map.empty]
    by blast
qed

lemma get_falsy_default:
  "\<not> truthy v \<Longrightarrow>
   get (b(''default_'' @ name \<mapsto> v)) s name = get (b(''default_'' @ name := None)) s name"
  by (simp add: get_def backend_get_def)

text \<open>
  C10. For a name of the fixed vocabulary that is absent from the working layer and
  whose persisted default is absent or falsy, \<^verbatim>\<open>get\<close> raises \<^verbatim>\<open>KeyError\<close> and
  \<^verbatim>\<open>contains\<close> returns \<^verbatim>\<open>False\<close>; a falsy persisted default is read exactly as a
  missing one.
\<close>

theorem missing_or_falsy_default:
  "(name \<in> set (map fst postgres_variables) \<and> map_of (defaults s) name = None \<and>
    \<not> truthy (backend_get b (''default_'' @ name)) \<longrightarrow>
      getitem b s name = (Inl (KeyError name), s) \<and> contains b s name = (Inr False, s)) \<and>
   (\<not> truthy v \<longrightarrow>
      getitem (b(''default_'' @ name \<mapsto> v)) s name =
        getitem (b(''default_'' @ name := None)) s name \<and>
      contains (b(''default_'' @ name \<mapsto> v)) s name =
        contains (b(''default_'' @ name := None)) s name)"
proof -
  have a: "name \<in> set (map fst postgres_variables) \<Longrightarrow> map_of (defaults s) name = None \<Longrightarrow>
    \<not> truthy (backend_get b (''default_'' @ name)) \<Longrightarrow>
      getitem b s name = (Inl (KeyError name), s) \<and> contains b s name = (Inr False, s)"
    by (simp add: getitem_valid get_cases contains_resolved resolved_def)
  have b1: "\<not> truthy v \<Longrightarrow>
      getitem (b(''default_'' @ name \<mapsto> v)) s name =
        getitem (b(''default_'' @ name := None)) s name"
    using get_falsy_default [of v b name s]
    by (cases "validate_name name") (simp_all add: getitem_def keytransform_def)
  have b2: "\<not> truthy v \<Longrightarrow>
      contains (b(''default_'' @ name \<mapsto> v)) s name =
        contains (b(''default_'' @ name := None)) s name"
    by (cases "validate_name name") (simp_all add: contains_def backend_get_def)
  from a b1 b2 show ?thesis by blast
qed

theorem missing_or_falsy_default_witness:
  "''port'' \<in> set (map fst postgres_variables) \<and> \<not> truthy (PInt 0) \<and>
   getitem (Map.empty(''default_port'' \<mapsto> PInt 0)) \<lparr>defaults = [], userspecified = []\<rparr> ''port''
     = (Inl (KeyError ''port''), \<lparr>defaults = [], userspecified = []\<rparr>) \<and>
   contains (Map.empty(''default_port'' \<mapsto> PInt 0)) \<lparr>defaults = [], userspecified = []\<rparr> ''port''
     = (Inr False, \<lparr>defaults = [], userspecified = []\<rparr>) \<and>
   getitem (Map.empty(''default_'' @ ''port'' \<mapsto> PInt 0)) \<lparr>defaults = [], userspecified = []\<rparr> ''port''
     = getitem (Map.empty(''default_'' @ ''port'' := None)) \<lparr>defaults = [], userspecified = []\<rparr> ''port''"
proof -
  have v: "''port'' \<in> set (map fst postgres_variables)"
    by (simp add: postgres_variables_def)
  have d: "map_of (defaults \<lparr>defaults = [], userspecified = []\<rparr>) ''port'' = None"
    by simp
  have f: "\<not> truthy (backend_get (Map.empty(''default_port'' \<mapsto> PInt 0)) (''default_'' @ ''port''))"
    by (simp add: backend_get_def)
  have z: "\<not> truthy (PInt 0)"
    by simp
  from v d f z show ?thesis
    using missing_or_falsy_default
            [of "''port''" "\<lparr>defaults = [], userspecified = []\<rparr>"
                "Map.empty(''default_port'' \<mapsto> PInt 0)" "PInt 0"]
          missing_or_falsy_default
            [of "''port''" "\<lparr>defaults = [], userspecified = []\<rparr>" "Map.empty" "PInt 0"]
    by blast
qed

section \<open>The three layers\<close>

text \<open>
  C1, as the specification states it: with a persisted default, a session override and
  an explicit value for one name, deleting the explicit value makes \<^verbatim>\<open>get\<close> return
  the session override. The instance below has all three for \<^verbatim>\<open>host\<close>; after the
  explicit value is deleted, the read yields the persisted default, not the override.
\<close>

theorem override_not_read_counterexample:
  "fst (getitem (Map.empty(''default_host'' \<mapsto> PStr ''persisted''))
         (snd (delitem
           (snd (setitem
             (snd (set_user_specified \<lparr>defaults = [], userspecified = []\<rparr>
                     ''host'' (PStr ''override'')))
             ''host'' (PStr ''explicit'')))
           ''host''))
         ''host'')
   = Inr (PStr ''persisted'') \<and>
   fst (getitem (Map.empty(''default_host'' \<mapsto> PStr ''persisted''))
         (snd (delitem
           (snd (setitem
             (snd (set_user_specified \<lparr>defaults = [], userspecified = []\<rparr>
                     ''host'' (PStr ''override'')))
             ''host'' (PStr ''explicit'')))
           ''host''))
         ''host'')
   \<noteq> Inr (PStr ''override'')"
proof -
  have v: "validate_name ''host'' = Inr ()"
    by (simp add: validate_name_def try_validate_name_def postgres_variables_def)
  show ?thesis
    by (simp add: v getitem_def get_def setitem_def delitem_def set_user_specified_def
        keytransform_def backend_get_def)
qed

text \<open>
  C1, amended. \<^verbatim>\<open>set_user_specified\<close> and \<^verbatim>\<open>unset_user_specified\<close> change the
  override layer only and leave the working layer as it is. With a truthy persisted
  default \<open>p\<close>, a session override \<open>u\<close> and an explicit value \<open>e\<close> for a name of the
  vocabulary, \<^verbatim>\<open>get\<close> returns \<open>e\<close>; after the explicit value is deleted it returns
  \<open>p\<close>, and it still returns \<open>p\<close> after the override is unset. The override is what
  \<^verbatim>\<open>get\<close> returns once the working layer has been reloaded from the override layer.
\<close>

theorem precedence_without_reload:
  assumes "name \<in> set (map fst postgres_variables)"
    and "b (''default_'' @ name) = Some p" and "truthy p"
    and "s1 = snd (set_user_specified s name u)"
    and "s2 = snd (setitem s1 name e)"
    and "s3 = snd (delitem s2 name)"
    and "s4 = snd (unset_user_specified (snd (getitem b s3 name)) name)"
  shows "defaults s1 = defaults s \<and> map_of (userspecified s1) name = Some u \<and>
         fst (getitem b s2 name) = Inr e \<and>
         fst (getitem b s3 name) = Inr p \<and>
         defaults s4 = defaults (snd (getitem b s3 name)) \<and>
         fst (getitem b s4 name) = Inr p \<and>
         fst (getitem b (reload s1) name) = Inr u"
  using assms valid_name [of name]
  by (simp add: getitem_def get_def setitem_def delitem_def set_user_specified_def
        unset_user_specified_def reload_def
        keytransform_def backend_get_def AList.update_conv' AList.delete_conv')

theorem precedence_without_reload_witness:
  "fst (getitem (Map.empty(''default_host'' \<mapsto> PStr ''persisted''))
         (snd (setitem
           (snd (set_user_specified \<lparr>defaults = [], userspecified = []\<rparr>
                   ''host'' (PStr ''override'')))
           ''host'' (PStr ''explicit'')))
         ''host'')
   = Inr (PStr ''explicit'') \<and>
   fst (getitem (Map.empty(''default_host'' \<mapsto> PStr ''persisted''))
         (reload (snd (set_user_specified \<lparr>defaults = [], userspecified = []\<rparr>
                         ''host'' (PStr ''override''))))
         ''host'')
   = Inr (PStr ''override'')"
proof -
  have v: "''host'' \<in> set (map fst postgres_variables)"
    by (simp add: postgres_variables_def)
  have d: "(Map.empty(''default_host'' \<mapsto> PStr ''persisted'')) (''default_'' @ ''host'')
             = Some (PStr ''persisted'')"
    by simp
  have t: "truthy (PStr ''persisted'')"
    by simp
  from precedence_without_reload
         [where b = "Map.empty(''default_host'' \<mapsto> PStr ''persisted'')"
            and s = "\<lparr>defaults = [], userspecified = []\<rparr>"
            and u = "PStr ''override''" and e = "PStr ''explicit''",
          OF v d t refl refl refl refl]
  show ?thesis by blast
qed

section \<open>Saving the overrides\<close>

lemma save_loop_other:
  "k \<notin> (\<lambda>n. ''default_'' @ n) ` set names \<Longrightarrow> save_loop us names b k = b k"
  by (induction names arbitrary: b)
     (auto simp add: save_loop_def backend_set_def split: option.splits)

lemma save_loop_key:
  "save_loop us names b (''default_'' @ n) =
     (if n \<in> set names
      then (case map_of us n of None \<Rightarrow> b (''default_'' @ n) | Some v \<Rightarrow> Some v)
      else b (''default_'' @ n))"
proof (induction names arbitrary: b)
  case Nil
  show ?case by (simp add: save_loop_def)
next
  case (Cons m ms)
  have step: "save_loop us (m # ms) b =
      save_loop us ms (case map_of us m of None \<Rightarrow> b
                       | Some v \<Rightarrow> backend_set b (''default_'' @ m) v)"
    by (simp add: save_loop_def)
  show ?case
    unfolding step Cons.IH
    by (auto simp add: backend_set_def split: option.splits)
qed

text \<open>
  C8, as the specification states it: after \<^verbatim>\<open>save\<close>, a \<^verbatim>\<open>get\<close> for a saved name
  returns the value just persisted. The override below is the flag
  \<^verbatim>\<open>prompt_for_password\<close> set to \<^verbatim>\<open>False\<close>: it is written to the backend, and the
  read that follows raises \<^verbatim>\<open>KeyError\<close>.
\<close>

theorem save_falsy_override_counterexample:
  "fst (save Map.empty
         \<lparr>defaults = [], userspecified = [(''prompt_for_password'', PBool False)]\<rparr>)
     ''default_prompt_for_password'' = Some (PBool False) \<and>
   fst (getitem
         (fst (save Map.empty
                \<lparr>defaults = [], userspecified = [(''prompt_for_password'', PBool False)]\<rparr>))
         (snd (save Map.empty
                \<lparr>defaults = [], userspecified = [(''prompt_for_password'', PBool False)]\<rparr>))
         ''prompt_for_password'')
   = Inl (KeyError ''prompt_for_password'')"
proof -
  have v: "validate_name ''prompt_for_password'' = Inr ()"
    by (simp add: validate_name_def try_validate_name_def postgres_variables_def)
  show ?thesis
    by (simp add: v getitem_def get_def save_def save_loop_def backend_set_def clear_def
        reload_def keytransform_def backend_get_def)
qed

text \<open>
  C8, amended. \<^verbatim>\<open>save\<close> writes each session override to the backend under
  \<^verbatim>\<open>default_<name>\<close> and leaves every other backend key as it was; afterwards the
  override layer is empty and \<^verbatim>\<open>has_user_specified\<close> is false. If there was an
  override, the working layer is empty as well; with no override the call changes
  nothing. A following \<^verbatim>\<open>get\<close> for a saved name of the vocabulary returns the saved
  value when that value is truthy.
\<close>

theorem save_moves_overrides:
  "(\<forall>n. n \<in> fst ` set (userspecified s) \<longrightarrow>
        fst (save b s) (''default_'' @ n) = map_of (userspecified s) n) \<and>
   (\<forall>k. k \<notin> (\<lambda>n. ''default_'' @ n) ` fst ` set (userspecified s) \<longrightarrow>
        fst (save b s) k = b k) \<and>
   userspecified (snd (save b s)) = [] \<and>
   \<not> has_user_specified (snd (save b s)) \<and>
   (userspecified s \<noteq> [] \<longrightarrow> defaults (snd (save b s)) = []) \<and>
   (userspecified s = [] \<longrightarrow> save b s = (b, s)) \<and>
   (\<forall>n v. n \<in> set (map fst postgres_variables) \<and> map_of (userspecified s) n = Some v \<and>
          truthy v \<longrightarrow>
        fst (getitem (fst (save b s)) (snd (save b s)) n) = Inr v)"
proof -
  have fs: "fst (save b s) = save_loop (userspecified s) (map fst (userspecified s)) b"
    by (simp add: save_def Let_def)
  have a: "n \<in> fst ` set (userspecified s) \<Longrightarrow>
        fst (save b s) (''default_'' @ n) = map_of (userspecified s) n" for n
    unfolding fs save_loop_key
    by (auto simp add: map_of_eq_None_iff split: option.splits)
  have b: "k \<notin> (\<lambda>n. ''default_'' @ n) ` fst ` set (userspecified s) \<Longrightarrow>
        fst (save b s) k = b k" for k
    unfolding fs by (rule save_loop_other) simp
  have c: "userspecified (snd (save b s)) = []"
    by (simp add: save_def Let_def clear_def reload_def)
  have d: "\<not> has_user_specified (snd (save b s))"
    by (simp add: has_user_specified_def c)
  have e: "userspecified s \<noteq> [] \<Longrightarrow> defaults (snd (save b s)) = []"
    by (simp add: save_def Let_def clear_def reload_def)
  have f: "userspecified s = [] \<Longrightarrow> save b s = (b, s)"
    by (simp add: save_def Let_def save_loop_def)
  have g: "fst (getitem (fst (save b s)) (snd (save b s)) n) = Inr v"
    if v: "n \<in> set (map fst postgres_variables)" and m: "map_of (userspecified s) n = Some v"
      and t: "truthy v" for n v
  proof -
    from m have ne: "userspecified s \<noteq> []" by auto
    from m have "n \<in> fst ` set (userspecified s)"
      by (metis map_of_eq_None_iff option.distinct(1))
    then have k: "fst (save b s) (''default_'' @ n) = Some v" using a m by simp
    have "resolved (fst (save b s)) (snd (save b s)) n = Some v"
      using e [OF ne] k t by (simp add: resolved_def backend_get_def)
    then show ?thesis using getitem_resolved [OF v] by simp
  qed
  from a b c d e f g show ?thesis by blast
qed

theorem save_moves_overrides_witness:
  "''host'' \<in> fst ` set (userspecified
      \<lparr>defaults = [(''port'', PInt 1)], userspecified = [(''host'', PStr ''db1'')]\<rparr>) \<and>
   fst (save Map.empty
         \<lparr>defaults = [(''port'', PInt 1)], userspecified = [(''host'', PStr ''db1'')]\<rparr>)
       (''default_'' @ ''host'') = Some (PStr ''db1'') \<and>
   defaults (snd (save Map.empty
         \<lparr>defaults = [(''port'', PInt 1)], userspecified = [(''host'', PStr ''db1'')]\<rparr>)) = [] \<and>
   fst (getitem
         (fst (save Map.empty
                \<lparr>defaults = [(''port'', PInt 1)], userspecified = [(''host'', PStr ''db1'')]\<rparr>))
         (snd (save Map.empty
                \<lparr>defaults = [(''port'', PInt 1)], userspecified = [(''host'', PStr ''db1'')]\<rparr>))
         ''host'')
   = Inr (PStr ''db1'')"
proof -
  let ?s = "\<lparr>defaults = [(''port'', PInt 1)], userspecified = [(''host'', PStr ''db1'')]\<rparr>"
  have k: "''host'' \<in> fst ` set (userspecified ?s)"
    by simp
  have m: "map_of (userspecified ?s) ''host'' = Some (PStr ''db1'')"
    by simp
  have ne: "userspecified ?s \<noteq> []"
    by simp
  have v: "''host'' \<in> set (map fst postgres_variables)"
    by (simp add: postgres_variables_def)
  have t: "truthy (PStr ''db1'')"
    by simp
  from save_moves_overrides [of ?s Map.empty] k m ne v t
  show ?thesis by metis
qed

section \<open>Constructing the instance of a window twice\<close>

lemma update_valid:
  "set (map fst kvs) \<subseteq> set (map fst postgres_variables) \<Longrightarrow>
   update s kvs = (Inr (), s\<lparr>defaults := fold (\<lambda>(k, v). AList.update k v) kvs (defaults s)\<rparr>)"
proof (induction kvs arbitrary: s)
  case Nil
  show ?case by simp
next
  case (Cons kv kvs)
  obtain k v where kv: "kv = (k, v)" by (cases kv)
  from Cons.prems kv have k: "k \<in> set (map fst postgres_variables)" by simp
  from Cons.prems have rest: "set (map fst kvs) \<subseteq> set (map fst postgres_variables)" by simp
  have st: "setitem s k v = (Inr (), s\<lparr>defaults := AList.update k v (defaults s)\<rparr>)"
    by (simp add: setitem_def valid_name [OF k] keytransform_def)
  show ?case
    by (simp add: kv st Cons.IH [OF rest])
qed

lemma window_not_a_variable: "''window'' \<notin> set (map fst postgres_variables)"
  by (simp add: postgres_variables_def)

text \<open>
  C9. Constructing \<^verbatim>\<open>PsqlSettings\<close> for a window whose id is in the registry returns
  the registered instance itself, and \<^verbatim>\<open>__init__\<close> runs again on it: whatever its
  two dictionaries held, the override layer is empty afterwards and the working layer
  holds the new keyword arguments only. The registry is unchanged.
\<close>

theorem second_construction_resets:
  assumes "windows r wid = Some a" and "heap r a = Some self"
    and "set (map fst kwargs) \<subseteq> set (map fst postgres_variables)"
  shows "PsqlSettings r (Some wid) kwargs =
           (Inr a,
            r\<lparr>heap := (heap r)(a \<mapsto>
                 \<lparr>defaults = fold (\<lambda>(k, v). AList.update k v) kwargs [],
                  userspecified = []\<rparr>)\<rparr>)"
proof -
  from assms(3) window_not_a_variable have "''window'' \<notin> fst ` set kwargs"
    by auto
  then have del: "AList.delete ''window'' kwargs = kwargs"
    by simp
  have i: "init self kwargs =
      (Inr (), \<lparr>defaults = fold (\<lambda>(k, v). AList.update k v) kwargs [], userspecified = []\<rparr>)"
    by (simp add: init_def del reload_def update_valid [OF assms(3)])
  show ?thesis
    by (simp add: PsqlSettings_def new_def assms(1) assms(2) i)
qed

theorem second_construction_resets_witness:
  "PsqlSettings
     \<lparr>heap = Map.empty(0 \<mapsto> \<lparr>defaults = [(''host'', PStr ''db1''), (''port'', PInt 5432)],
                             userspecified = [(''user'', PStr ''alice'')]\<rparr>),
      windows = Map.empty(7 \<mapsto> 0), next_addr = 1\<rparr>
     (Some 7) [(''database'', PStr ''test'')]
   = (Inr 0,
      \<lparr>heap = Map.empty(0 \<mapsto> \<lparr>defaults = [(''database'', PStr ''test'')],
                              userspecified = []\<rparr>),
       windows = Map.empty(7 \<mapsto> 0), next_addr = 1\<rparr>)"
proof -
  let ?self = "\<lparr>defaults = [(''host'', PStr ''db1''), (''port'', PInt 5432)],
                userspecified = [(''user'', PStr ''alice'')]\<rparr>"
  let ?r = "\<lparr>heap = Map.empty(0 \<mapsto> ?self), windows = Map.empty(7 \<mapsto> 0), next_addr = 1\<rparr>"
  have w: "windows ?r 7 = Some 0"
    by simp
  have h: "heap ?r 0 = Some ?self"
    by simp
  have k: "set (map fst [(''database'', PStr ''test'')]) \<subseteq> set (map fst postgres_variables)"
    by (simp add: postgres_variables_def)
  from second_construction_resets [OF w h k]
  show ?thesis by simp
qed

section \<open>The dispatcher\<close>

lemma bindS_Inr: "fst m = Inr a \<Longrightarrow> bindS m f = f a (snd m)"
  by (cases m) (simp add: bindS_def)

lemma bindS_Inl: "fst m = Inl e \<Longrightarrow> bindS m f = (Inl e, snd m)"
  by (cases m) (simp add: bindS_def)

lemma bindS_simps:
  "bindS (Inr a, s) f = f a s"
  "bindS (Inl e, s) f = (Inl e, s)"
  by (simp_all add: bindS_def)

lemma dispatcher_names:
  "''password'' \<in> set (map fst postgres_variables)"
  "''prompt_for_password'' \<in> set (map fst postgres_variables)"
  "''passfile'' \<in> set (map fst postgres_variables)"
  "''service'' \<in> set (map fst postgres_variables)"
  "''warn_on_empty_password'' \<in> set (map fst postgres_variables)"
  "''output_to_newfile'' \<in> set (map fst postgres_variables)"
  "''files'' \<in> set (map fst postgres_variables)"
  "''psql_path'' \<in> set (map fst postgres_variables)"
  by (simp_all add: postgres_variables_def)

lemmas contains_names = dispatcher_names [THEN contains_resolved]
lemmas getitem_names = dispatcher_names [THEN getitem_resolved]

lemma is_password_required_resolved:
  "fst (is_password_required b pgpass s) =
     Inr ((case resolved b s ''prompt_for_password'' of None \<Rightarrow> False | Some v \<Rightarrow> truthy v) \<and>
          resolved b s ''passfile'' = None \<and> resolved b s ''service'' = None \<and> \<not> pgpass) \<and>
   resolved b (snd (is_password_required b pgpass s)) = resolved b s"
proof -
  let ?m = "in_and_truthy b s ''prompt_for_password''"
  have m: "fst ?m =
      Inr (case resolved b s ''prompt_for_password'' of None \<Rightarrow> False | Some v \<Rightarrow> truthy v)"
    and r: "resolved b (snd ?m) = resolved b s"
    using in_and_truthy_resolved [OF dispatcher_names(2), of b s] by simp_all
  show ?thesis
    unfolding is_password_required_def bindS_Inr [OF m]
    by (simp add: contains_names bindS_simps r)
qed

text \<open>
  The conditional of lines 245 to 250 never raises: every name it reads is in the
  vocabulary.
\<close>

lemma password_step_returns:
  "\<exists>proceed. fst (password_step b pgpass ok password s) = Inr proceed"
proof -
  have store: "\<exists>p. fst (bindS (contains b s1 ''password'') (\<lambda>c s2.
              if \<not> c then bindS (setitem s2 ''password'' password) (\<lambda>_ s3. (Inr True, s3))
              else (Inr True, s2))) = Inr p" for s1
    by (auto simp add: contains_names bindS_simps setitem_valid [OF dispatcher_names(1)])
  have warn: "\<exists>p. fst (bindS (in_and_truthy b s1 ''warn_on_empty_password'') (\<lambda>w s2.
              if w \<and> \<not> ok then (Inr False, s2) else (Inr True, s2))) = Inr p" for s1
  proof -
    obtain w where w: "fst (in_and_truthy b s1 ''warn_on_empty_password'') = Inr w"
      using in_and_truthy_resolved [OF dispatcher_names(5), of b s1] by blast
    show ?thesis
      unfolding bindS_Inr [OF w] by auto
  qed
  show ?thesis
  proof (cases "truthy password")
    case True
    then have "password_step b pgpass ok password s =
        bindS (contains b s ''password'') (\<lambda>c s2.
              if \<not> c then bindS (setitem s2 ''password'' password) (\<lambda>_ s3. (Inr True, s3))
              else (Inr True, s2))"
      by (simp add: password_step_def bindS_simps)
    with store [of s] show ?thesis by simp
  next
    case False
    obtain req where req: "fst (is_password_required b pgpass s) = Inr req"
      using is_password_required_resolved [of b pgpass s] by blast
    show ?thesis
    proof (cases req)
      case True
      with False have "password_step b pgpass ok password s =
          bindS (in_and_truthy b (snd (is_password_required b pgpass s)) ''warn_on_empty_password'')
            (\<lambda>w s2. if w \<and> \<not> ok then (Inr False, s2) else (Inr True, s2))"
        by (simp add: password_step_def bindS_Inr [OF req])
      with warn [of "snd (is_password_required b pgpass s)"] show ?thesis by simp
    next
      case no: False
      with False have "password_step b pgpass ok password s =
          bindS (contains b (snd (is_password_required b pgpass s)) ''password'') (\<lambda>c s2.
              if \<not> c then bindS (setitem s2 ''password'' password) (\<lambda>_ s3. (Inr True, s3))
              else (Inr True, s2))"
        by (simp add: password_step_def bindS_Inr [OF req])
      with store [of "snd (is_password_required b pgpass s)"] show ?thesis by simp
    qed
  qed
qed

text \<open>
  Whatever it is called with, \<^verbatim>\<open>__run_with_password\<close> ends in the
  \<^verbatim>\<open>AttributeError\<close> of \<^verbatim>\<open>self.set_status\<close>, at line 247 or at line 258: it
  neither returns nor makes a work unit.
\<close>

lemma run_with_password_raises:
  "fst (run_with_password b pgpass ok isfile time vw password s) = Inl AttributeError"
proof -
  obtain proceed where p: "fst (password_step b pgpass ok password s) = Inr proceed"
    using password_step_returns by blast
  show ?thesis
  proof (cases proceed)
    case False
    then show ?thesis
      by (simp add: run_with_password_def bindS_Inr [OF p] command_set_status_def bindS_simps)
  next
    case True
    obtain newfile where
      n: "fst (is_output_to_newfile b (snd (password_step b pgpass ok password s))) = Inr newfile"
      unfolding is_output_to_newfile_def
      using in_and_truthy_resolved [OF dispatcher_names(6)] by blast
    from True show ?thesis
      by (simp add: run_with_password_def bindS_Inr [OF p] bindS_Inr [OF n]
            command_set_status_def bindS_simps)
  qed
qed

text \<open>So do lines 226 to 233, and \<^verbatim>\<open>run\<close> itself stops at line 221.\<close>

lemma password_gate_raises:
  "fst (password_gate b pgpass ok isfile time vw s) = Inl AttributeError"
proof (cases "resolved b s ''password''")
  case None
  obtain req where req: "fst (is_password_required b pgpass s) = Inr req"
    using is_password_required_resolved [of b pgpass s] by blast
  show ?thesis
    unfolding password_gate_def
    by (simp add: contains_names None bindS_simps bindS_Inr [OF req] command_set_status_def
          run_with_password_raises)
next
  case (Some pw)
  have g: "fst (getitem b s ''password'') = Inr pw"
    by (simp add: getitem_names Some)
  show ?thesis
    unfolding password_gate_def
    by (simp add: contains_names Some bindS_simps bindS_Inr [OF g] run_with_password_raises)
qed

lemma run_raises:
  "run b pgpass ok isfile time vw kwargs s = (Inl AttributeError, s)"
  by (simp add: run_def assign_settings_def bindS_simps)

text \<open>
  C3. The specification has the dispatcher suspend for a password exactly when no password
  is present, the flag \<^verbatim>\<open>prompt_for_password\<close> is set and truthy, and there is neither
  passfile nor service nor \<^verbatim>\<open>~/.pgpass\<close>. The invocation below carries
  \<^verbatim>\<open>prompt_for_password: true\<close> and nothing else, and no \<^verbatim>\<open>~/.pgpass\<close> exists:
  \<^verbatim>\<open>run\<close> raises \<^verbatim>\<open>AttributeError\<close> at the assignment of line 221 and leaves the
  instance without the flag. Entered with the flag already in the instance, lines 226 to
  233 find that a password is required and raise \<^verbatim>\<open>AttributeError\<close> in line 230,
  before the input panel is shown. In neither case is the outcome the prompt.
\<close>

theorem prompt_never_shown:
  "run Map.empty False True (\<lambda>f. Inr False) (\<lambda>i. 0) \<lparr>content = ''select 1'', sel = []\<rparr>
     [(''prompt_for_password'', PBool True)] \<lparr>defaults = [], userspecified = []\<rparr>
   = (Inl AttributeError, \<lparr>defaults = [], userspecified = []\<rparr>) \<and>
   fst (is_password_required Map.empty False
         \<lparr>defaults = [(''prompt_for_password'', PBool True)], userspecified = []\<rparr>)
   = Inr True \<and>
   fst (password_gate Map.empty False True (\<lambda>f. Inr False) (\<lambda>i. 0)
         \<lparr>content = ''select 1'', sel = []\<rparr>
         \<lparr>defaults = [(''prompt_for_password'', PBool True)], userspecified = []\<rparr>)
   = Inl AttributeError"
proof -
  have req: "fst (is_password_required Map.empty False
         \<lparr>defaults = [(''prompt_for_password'', PBool True)], userspecified = []\<rparr>) = Inr True"
    using is_password_required_resolved
            [of Map.empty False
                "\<lparr>defaults = [(''prompt_for_password'', PBool True)], userspecified = []\<rparr>"]
    by (simp add: resolved_def backend_get_def)
  show ?thesis
    by (simp only: run_raises password_gate_raises req simp_thms)
qed

text \<open>
  C5. The specification has an invocation with no non-empty selection and no file list
  make exactly one work unit, holding the whole document. Below, the document is
  \<^verbatim>\<open>select 1\<close>, nothing is selected and the settings are empty:
  \<^verbatim>\<open>__run_with_password\<close> raises \<^verbatim>\<open>AttributeError\<close> at the
  \<^verbatim>\<open>self.set_status\<close> of line 258, before the lines that make the units, and
  \<^verbatim>\<open>run\<close> has raised before calling it. The outcome is never a list of units.
\<close>

theorem no_work_unit_made:
  "fst (run_with_password Map.empty False True (\<lambda>f. Inr False) (\<lambda>i. 0)
         \<lparr>content = ''select 1'', sel = []\<rparr> PNone \<lparr>defaults = [], userspecified = []\<rparr>)
   = Inl AttributeError \<and>
   fst (run Map.empty False True (\<lambda>f. Inr False) (\<lambda>i. 0)
         \<lparr>content = ''select 1'', sel = []\<rparr> [] \<lparr>defaults = [], userspecified = []\<rparr>)
   = Inl AttributeError"
  by (simp only: run_with_password_raises run_raises fst_conv simp_thms)

section \<open>The status line of a finished unit\<close>

text \<open>
  The labels of an invocation of several queries, as line 311 computes them: the first
  unit is labelled like a single query, and for every other unit the concatenation with
  the integer ordinal raises.
\<close>

lemma several_queries_labels:
  "ti_file ti = None \<Longrightarrow> ti_thread_num ti = Some 1 \<Longrightarrow> query_id ti thread_total = Inr ''query ''"
  "ti_file ti = None \<Longrightarrow> ti_thread_num ti = Some n \<Longrightarrow> n \<noteq> 1 \<Longrightarrow> thread_total \<noteq> 1 \<Longrightarrow>
     query_id ti thread_total = Inl TypeError"
  by (simp_all add: query_id_def)

text \<open>
  No finished unit gets a status line: when the label can be built, the lookup of
  \<^verbatim>\<open>self.set_status\<close> raises. One pass therefore shows nothing, and it ends with an
  exception as soon as one unit is found finished.
\<close>

lemma completion_status_raises:
  "\<exists>e. completion_status str now thread_total ti = Inl e"
  by (cases "ti_start_time ti"; cases "query_id ti thread_total")
     (simp_all add: completion_status_def bindE_def thread_set_status_def)

lemma labelled_unit_raises:
  "ti_start_time ti = Some t0 \<Longrightarrow> query_id ti thread_total = Inr qid \<Longrightarrow>
   completion_status str now thread_total ti = Inl AttributeError"
  by (simp add: completion_status_def bindE_def thread_set_status_def)

lemma handle_loop_shows_nothing:
  "fst (handle_loop str is_alive time thread_total i thread_infos) = []"
proof (induction thread_infos arbitrary: i)
  case Nil
  show ?case by simp
next
  case (Cons ti rest)
  obtain e where e: "completion_status str (time i) thread_total ti = Inl e"
    using completion_status_raises by blast
  obtain msgs r where r: "handle_loop str is_alive time thread_total (Suc i) rest = (msgs, r)"
    by (cases "handle_loop str is_alive time thread_total (Suc i) rest")
  with Cons.IH [of "Suc i"] have "msgs = []" by simp
  with r e show ?case
    by (cases r) simp_all
qed

lemma handle_loop_finished_unit:
  "\<not> is_alive i \<Longrightarrow>
   \<exists>e. handle_loop str is_alive time thread_total i (ti # rest) = ([], Inl e)"
  using completion_status_raises [of str "time i" thread_total ti] by auto

text \<open>
  C2. The specification has the supervisor show, for every finished unit, a status line
  with the label and the elapsed time. Below, all units have finished. For the files
  \<^verbatim>\<open>a.sql\<close> and \<^verbatim>\<open>b.sql\<close>, and for a single query, the pass shows no line and ends
  with the \<^verbatim>\<open>AttributeError\<close> of line 312 at the first unit, so the supervisor does
  not start itself again. For two queries of which the first is still running, the pass
  ends at the second with the \<^verbatim>\<open>TypeError\<close> of line 311.
\<close>

theorem no_status_line_shown:
  "handle_execution (\<lambda>x. ''12.5'') (\<lambda>i. False) (\<lambda>i. 1)
     [\<lparr>ti_thread = \<lparr>wk_query = PNone, wk_file = PStr ''a.sql''\<rparr>,
       ti_file = Some (PStr ''a.sql''), ti_thread_num = None, ti_start_time = Some 0\<rparr>,
      \<lparr>ti_thread = \<lparr>wk_query = PNone, wk_file = PStr ''b.sql''\<rparr>,
       ti_file = Some (PStr ''b.sql''), ti_thread_num = None, ti_start_time = Some 0\<rparr>] 2
   = ([], Inl AttributeError) \<and>
   handle_execution (\<lambda>x. ''12.5'') (\<lambda>i. False) (\<lambda>i. 1)
     [\<lparr>ti_thread = \<lparr>wk_query = PStr ''select 1'', wk_file = PNone\<rparr>,
       ti_file = None, ti_thread_num = Some 1, ti_start_time = Some 0\<rparr>] 1
   = ([], Inl AttributeError) \<and>
   handle_execution (\<lambda>x. ''12.5'') (\<lambda>i. i = 0) (\<lambda>i. 1)
     [\<lparr>ti_thread = \<lparr>wk_query = PStr ''select 1'', wk_file = PNone\<rparr>,
       ti_file = None, ti_thread_num = Some 1, ti_start_time = Some 0\<rparr>,
      \<lparr>ti_thread = \<lparr>wk_query = PStr ''select 2'', wk_file = PNone\<rparr>,
       ti_file = None, ti_thread_num = Some 2, ti_start_time = Some 0\<rparr>] 2
   = ([], Inl TypeError)"
  by (simp add: handle_execution_def completion_status_def query_id_def bindE_def
        thread_set_status_def)

section \<open>The worker\<close>

lemma get_parameter_default:
  assumes v: "name \<in> set (map fst postgres_variables)" and d: "truthy dflt"
  shows "fst (get_parameter b name dflt s) =
           Inr (case resolved b s name of None \<Rightarrow> dflt | Some v \<Rightarrow> v) \<and>
         resolved b (snd (get_parameter b name dflt s)) =
           (resolved b s)(name \<mapsto> (case resolved b s name of None \<Rightarrow> dflt | Some v \<Rightarrow> v))"
proof (cases "resolved b s name")
  case None
  let ?stored = "s\<lparr>defaults := AList.update name dflt (defaults s)\<rparr>"
  have st: "setitem s name dflt = (Inr (), ?stored)"
    by (rule setitem_valid [OF v])
  have r1: "resolved b ?stored = (resolved b s)(name \<mapsto> dflt)"
    by (rule resolved_update)
  have eq: "get_parameter b name dflt s = getitem b ?stored name"
    unfolding get_parameter_def contains_resolved [OF v] bindS_simps
    by (simp add: None d st bindS_simps)
  have g: "fst (getitem b ?stored name) = Inr dflt"
    by (simp add: getitem_resolved [OF v] r1)
  have k: "resolved b (snd (getitem b ?stored name)) = (resolved b s)(name \<mapsto> dflt)"
    by (simp only: getitem_keeps_resolved r1)
  show ?thesis
    unfolding eq using g k by (simp add: None)
next
  case (Some x)
  have eq: "get_parameter b name dflt s = getitem b s name"
    unfolding get_parameter_def contains_resolved [OF v] bindS_simps
    by (simp add: Some d bindS_simps)
  have g: "fst (getitem b s name) = Inr x"
    by (simp add: getitem_resolved [OF v] Some)
  have same: "(resolved b s)(name \<mapsto> x) = resolved b s"
    using Some by (auto simp add: fun_eq_iff)
  have k: "resolved b (snd (getitem b s name)) = (resolved b s)(name \<mapsto> x)"
    by (simp only: getitem_keeps_resolved same)
  show ?thesis
    unfolding eq using g k by (simp add: Some)
qed

text \<open>
  The path of the client is read, and stored when missing; then line 363 reads the
  property and raises. No environment is built and no child is started.
\<close>

lemma make_environment_raises:
  "fst (make_environment b callable penv encoding s) =
     Inl (if callable then NameError else TypeError)"
proof -
  have t: "truthy (PStr ''/usr/bin/psql'')" by simp
  obtain path where
    g: "fst (get_parameter b ''psql_path'' (PStr ''/usr/bin/psql'') s) = Inr path"
    using get_parameter_default [OF dispatcher_names(8) t, of b s] by blast
  show ?thesis
    unfolding make_environment_def bindS_Inr [OF g]
    by (simp add: postgres_variables_property_def bindS_simps)
qed

lemma run_try_raises:
  "fst (run_try w b callable self encoding s) = Inl (if callable then NameError else TypeError)"
  unfolding run_try_def
  by (simp add: bindS_Inl [OF make_environment_raises])

text \<open>
  C7. The specification has the child environment be the process environment with the
  truthy connection variables added under their external names. Below, the settings hold
  \<^verbatim>\<open>host\<close> and the process environment is empty: on either kind of interpreter, building
  the environment raises at line 363, so there is no environment and \<^verbatim>\<open>PGHOST\<close> is set
  nowhere. The worker, whose operating system would start the child and return
  \<^verbatim>\<open>ok\<close> with exit code 0, delivers the traceback with code 1 instead.
\<close>

theorem environment_never_built:
  "fst (make_environment Map.empty False Map.empty ''UTF-8''
         \<lparr>defaults = [(''host'', PStr ''db1'')], userspecified = []\<rparr>)
   = Inl TypeError \<and>
   fst (make_environment Map.empty True Map.empty ''UTF-8''
         \<lparr>defaults = [(''host'', PStr ''db1'')], userspecified = []\<rparr>)
   = Inl NameError \<and>
   fst (run_worker
         \<lparr>environ = Map.empty, open_file = (\<lambda>f. Inr []), popen = (\<lambda>cmd env. Inr 0),
          communicate = (\<lambda>p input. Inr ''ok''), bytes = (\<lambda>q enc. Inr []),
          decode = (\<lambda>out enc. Inr out), poll = (\<lambda>p. PInt 0),
          format_exc = (\<lambda>e. ''Traceback (most recent call last)'')\<rparr>
         Map.empty False \<lparr>wk_query = PStr ''select 1'', wk_file = PNone\<rparr> ''UTF-8''
         \<lparr>defaults = [(''host'', PStr ''db1'')], userspecified = []\<rparr>)
   = Inr (PInt 1, ''Traceback (most recent call last)'')"
proof -
  let ?s = "\<lparr>defaults = [(''host'', PStr ''db1'')], userspecified = []\<rparr>"
  let ?w = "\<lparr>environ = Map.empty, open_file = (\<lambda>f. Inr []), popen = (\<lambda>cmd env. Inr 0),
          communicate = (\<lambda>p input. Inr ''ok''), bytes = (\<lambda>q enc. Inr []),
          decode = (\<lambda>out enc. Inr out), poll = (\<lambda>p. PInt 0),
          format_exc = (\<lambda>e. ''Traceback (most recent call last)'')\<rparr>"
  let ?self = "\<lparr>wk_query = PStr ''select 1'', wk_file = PNone\<rparr>"
  have a: "fst (make_environment Map.empty False Map.empty ''UTF-8'' ?s) = Inl TypeError"
    using make_environment_raises [of Map.empty False Map.empty "''UTF-8''" ?s] by simp
  have b: "fst (make_environment Map.empty True Map.empty ''UTF-8'' ?s) = Inl NameError"
    using make_environment_raises [of Map.empty True Map.empty "''UTF-8''" ?s] by simp
  obtain s' where t: "run_try ?w Map.empty False ?self ''UTF-8'' ?s = (Inl TypeError, s')"
    using run_try_raises [of ?w Map.empty False ?self "''UTF-8''" ?s]
    by (cases "run_try ?w Map.empty False ?self ''UTF-8'' ?s") simp
  have c: "fst (run_worker ?w Map.empty False ?self ''UTF-8'' ?s)
             = Inr (PInt 1, ''Traceback (most recent call last)'')"
    by (simp add: run_worker_def except_BaseException_def t)
  from a b c show ?thesis by blast
qed

section \<open>Failures of the worker\<close>

text \<open>A step of lines 372 to 381 that raises ends them with its exception.\<close>

lemma communicate_with_child_failures:
  "truthy (wk_file self) \<Longrightarrow> open_file w (wk_file self) = Inl e \<Longrightarrow>
     communicate_with_child w self encoding cmd env = Inl e"
  "truthy (wk_file self) \<Longrightarrow> open_file w (wk_file self) = Inr inputfile \<Longrightarrow>
     popen w cmd env = Inl e \<Longrightarrow>
     communicate_with_child w self encoding cmd env = Inl e"
  "truthy (wk_file self) \<Longrightarrow> open_file w (wk_file self) = Inr inputfile \<Longrightarrow>
     popen w cmd env = Inr p \<Longrightarrow> communicate w p inputfile = Inl e \<Longrightarrow>
     communicate_with_child w self encoding cmd env = Inl e"
  "\<not> truthy (wk_file self) \<Longrightarrow> popen w cmd env = Inl e \<Longrightarrow>
     communicate_with_child w self encoding cmd env = Inl e"
  "\<not> truthy (wk_file self) \<Longrightarrow> popen w cmd env = Inr p \<Longrightarrow>
     bytes w (wk_query self) encoding = Inl e \<Longrightarrow>
     communicate_with_child w self encoding cmd env = Inl e"
  "\<not> truthy (wk_file self) \<Longrightarrow> popen w cmd env = Inr p \<Longrightarrow>
     bytes w (wk_query self) encoding = Inr input \<Longrightarrow> communicate w p input = Inl e \<Longrightarrow>
     communicate_with_child w self encoding cmd env = Inl e"
  "\<not> truthy (wk_file self) \<Longrightarrow> popen w cmd env = Inr p \<Longrightarrow>
     bytes w (wk_query self) encoding = Inr input \<Longrightarrow> communicate w p input = Inr out \<Longrightarrow>
     decode w out encoding = Inl e \<Longrightarrow>
     communicate_with_child w self encoding cmd env = Inl e"
  by (simp_all add: communicate_with_child_def bindE_def)

text \<open>
  C6. \<^verbatim>\<open>run\<close> of the worker never raises: for every input it ends by scheduling a
  pair of code and text. The \<^verbatim>\<open>try\<close> body always fails, at line 363, and the pair is
  the traceback of that exception with the code 1, which is nonzero. The handler does the
  same for every exception of the body and lets a result of the body through unchanged;
  in particular, were the steps of lines 372 to 381 reached, a failure to open the file,
  to start the child, to encode the query, to talk to the child or to decode its output
  would be delivered as the traceback with the code 1.
\<close>

theorem worker_run_never_raises:
  "fst (run_worker w b callable self encoding s) =
     Inr (PInt 1, format_exc w (if callable then NameError else TypeError)) \<and>
   truthy (PInt 1) \<and>
   (\<forall>e s'. except_BaseException w (Inl e, s') = (Inr (PInt 1, format_exc w e), s')) \<and>
   (\<forall>r s'. except_BaseException w (Inr r, s') = (Inr r, s')) \<and>
   (\<forall>cmd env e s'.
      (if truthy (wk_file self)
       then open_file w (wk_file self) = Inl e \<or>
            (\<exists>inputfile. open_file w (wk_file self) = Inr inputfile \<and>
               (popen w cmd env = Inl e \<or>
                (\<exists>p. popen w cmd env = Inr p \<and> communicate w p inputfile = Inl e)))
       else popen w cmd env = Inl e \<or>
            (\<exists>p. popen w cmd env = Inr p \<and>
               (bytes w (wk_query self) encoding = Inl e \<or>
                (\<exists>input. bytes w (wk_query self) encoding = Inr input \<and>
                   (communicate w p input = Inl e \<or>
                    (\<exists>out. communicate w p input = Inr out \<and>
                       decode w out encoding = Inl e)))))) \<longrightarrow>
      except_BaseException w (communicate_with_child w self encoding cmd env, s') =
        (Inr (PInt 1, format_exc w e), s'))"
proof -
  obtain s1 where t: "run_try w b callable self encoding s =
      (Inl (if callable then NameError else TypeError), s1)"
    using run_try_raises [of w b callable self encoding s]
    by (cases "run_try w b callable self encoding s") simp
  have a: "fst (run_worker w b callable self encoding s) =
     Inr (PInt 1, format_exc w (if callable then NameError else TypeError))"
    by (simp add: run_worker_def except_BaseException_def t)
  have h1: "except_BaseException w (Inl e, s') = (Inr (PInt 1, format_exc w e), s')" for e s'
    by (simp add: except_BaseException_def)
  have h2: "except_BaseException w (Inr r, s') = (Inr r, s')" for r s'
    by (cases r) (simp add: except_BaseException_def)
  have c: "except_BaseException w (communicate_with_child w self encoding cmd env, s') =
        (Inr (PInt 1, format_exc w e), s')"
    if "if truthy (wk_file self)
       then open_file w (wk_file self) = Inl e \<or>
            (\<exists>inputfile. open_file w (wk_file self) = Inr inputfile \<and>
               (popen w cmd env = Inl e \<or>
                (\<exists>p. popen w cmd env = Inr p \<and> communicate w p inputfile = Inl e)))
       else popen w cmd env = Inl e \<or>
            (\<exists>p. popen w cmd env = Inr p \<and>
               (bytes w (wk_query self) encoding = Inl e \<or>
                (\<exists>input. bytes w (wk_query self) encoding = Inr input \<and>
                   (communicate w p input = Inl e \<or>
                    (\<exists>out. communicate w p input = Inr out \<and>
                       decode w out encoding = Inl e)))))" for cmd env e s'
  proof -
    from that have "communicate_with_child w self encoding cmd env = Inl e"
      by (auto simp add: communicate_with_child_failures split: if_splits)
    then show ?thesis by (simp add: h1)
  qed
  from a h1 h2 c show ?thesis by simp
qed

theorem worker_run_never_raises_witness:
  "except_BaseException
     \<lparr>environ = Map.empty, open_file = (\<lambda>f. Inl OSError), popen = (\<lambda>cmd env. Inl OSError),
      communicate = (\<lambda>p input. Inr []), bytes = (\<lambda>q enc. Inr []),
      decode = (\<lambda>out enc. Inr []), poll = (\<lambda>p. PInt 0),
      format_exc = (\<lambda>e. ''Traceback (most recent call last)'')\<rparr>
     (communicate_with_child
        \<lparr>environ = Map.empty, open_file = (\<lambda>f. Inl OSError), popen = (\<lambda>cmd env. Inl OSError),
         communicate = (\<lambda>p input. Inr []), bytes = (\<lambda>q enc. Inr []),
         decode = (\<lambda>out enc. Inr []), poll = (\<lambda>p. PInt 0),
         format_exc = (\<lambda>e. ''Traceback (most recent call last)'')\<rparr>
        \<lparr>wk_query = PStr ''select 1'', wk_file = PNone\<rparr> ''UTF-8''
        [PStr ''/usr/bin/psql'', PStr ''--no-password''] Map.empty,
      \<lparr>defaults = [], userspecified = []\<rparr>)
   = (Inr (PInt 1, ''Traceback (most recent call last)''), \<lparr>defaults = [], userspecified = []\<rparr>) \<and>
   fst (run_worker
         \<lparr>environ = Map.empty, open_file = (\<lambda>f. Inl OSError), popen = (\<lambda>cmd env. Inl OSError),
          communicate = (\<lambda>p input. Inr []), bytes = (\<lambda>q enc. Inr []),
          decode = (\<lambda>out enc. Inr []), poll = (\<lambda>p. PInt 0),
          format_exc = (\<lambda>e. ''Traceback (most recent call last)'')\<rparr>
         Map.empty False \<lparr>wk_query = PStr ''select 1'', wk_file = PNone\<rparr> ''UTF-8''
         \<lparr>defaults = [], userspecified = []\<rparr>)
   = Inr (PInt 1, ''Traceback (most recent call last)'')"
proof -
  let ?w = "\<lparr>environ = Map.empty, open_file = (\<lambda>f. Inl OSError),
             popen = (\<lambda>cmd env. Inl OSError),
             communicate = (\<lambda>p input. Inr []), bytes = (\<lambda>q enc. Inr []),
             decode = (\<lambda>out enc. Inr []), poll = (\<lambda>p. PInt 0),
             format_exc = (\<lambda>e. ''Traceback (most recent call last)'')\<rparr>"
  let ?self = "\<lparr>wk_query = PStr ''select 1'', wk_file = PNone\<rparr>"
  let ?s = "\<lparr>defaults = [], userspecified = []\<rparr>"
  let ?cmd = "[PStr ''/usr/bin/psql'', PStr ''--no-password'']"
  have spawn: "if truthy (wk_file ?self)
       then open_file ?w (wk_file ?self) = Inl OSError \<or>
            (\<exists>inputfile. open_file ?w (wk_file ?self) = Inr inputfile \<and>
               (popen ?w ?cmd Map.empty = Inl OSError \<or>
                (\<exists>p. popen ?w ?cmd Map.empty = Inr p \<and>
                     communicate ?w p inputfile = Inl OSError)))
       else popen ?w ?cmd Map.empty = Inl OSError \<or>
            (\<exists>p. popen ?w ?cmd Map.empty = Inr p \<and>
               (bytes ?w (wk_query ?self) ''UTF-8'' = Inl OSError \<or>
                (\<exists>input. bytes ?w (wk_query ?self) ''UTF-8'' = Inr input \<and>
                   (communicate ?w p input = Inl OSError \<or>
                    (\<exists>out. communicate ?w p input = Inr out \<and>
                       decode ?w out ''UTF-8'' = Inl OSError)))))"
    by simp
  from worker_run_never_raises [of ?w Map.empty False ?self "''UTF-8''" ?s]
  have run: "fst (run_worker ?w Map.empty False ?self ''UTF-8'' ?s) =
               Inr (PInt 1, format_exc ?w TypeError)"
    and conv: "\<forall>cmd env e s'.
      (if truthy (wk_file ?self)
       then open_file ?w (wk_file ?self) = Inl e \<or>
            (\<exists>inputfile. open_file ?w (wk_file ?self) = Inr inputfile \<and>
               (popen ?w cmd env = Inl e \<or>
                (\<exists>p. popen ?w cmd env = Inr p \<and> communicate ?w p inputfile = Inl e)))
       else popen ?w cmd env = Inl e \<or>
            (\<exists>p. popen ?w cmd env = Inr p \<and>
               (bytes ?w (wk_query ?self) ''UTF-8'' = Inl e \<or>
                (\<exists>input. bytes ?w (wk_query ?self) ''UTF-8'' = Inr input \<and>
                   (communicate ?w p input = Inl e \<or>
                    (\<exists>out. communicate ?w p input = Inr out \<and>
                       decode ?w out ''UTF-8'' = Inl e)))))) \<longrightarrow>
      except_BaseException ?w (communicate_with_child ?w ?self ''UTF-8'' cmd env, s') =
        (Inr (PInt 1, format_exc ?w e), s')"
    by simp_all
  from conv [rule_format, where cmd = ?cmd and env = Map.empty and e = OSError and s' = ?s,
              OF spawn]
  have one: "except_BaseException ?w (communicate_with_child ?w ?self ''UTF-8'' ?cmd Map.empty, ?s)
      = (Inr (PInt 1, ''Traceback (most recent call last)''), ?s)"
    by simp
  from run have two: "fst (run_worker ?w Map.empty False ?self ''UTF-8'' ?s)
      = Inr (PInt 1, ''Traceback (most recent call last)'')"
    by simp
  from one two show ?thesis by blast
qed

end
